theory Spec2Isabelle
  imports Complex_Main
begin

section \<open>Exceptions\<close>

text \<open>
  Python exceptions are values. The argument of \<open>ValueError\<close> and \<open>KeyError\<close> is the
  message (for \<open>KeyError\<close>: the missing key). \<open>OtherError\<close> stands for every exception
  class the sources do not raise themselves (what a subclass's preparation routine, numpy's
  loader or scipy's loader may raise); its argument is a description.
\<close>

datatype exn =
    ValueError string
  | KeyError string
  | IndexError string
  | OtherError string

text \<open>Sequencing of a computation that may raise: the first exception aborts.\<close>

definition and_then :: "exn + 'a \<Rightarrow> ('a \<Rightarrow> exn + 'b) \<Rightarrow> exn + 'b" where
  "and_then r f = (case r of Inl e \<Rightarrow> Inl e | Inr x \<Rightarrow> f x)"

section \<open>AERDataset (src/aardt/datasets/AERDataset.py)\<close>

text \<open>
  Modelled from the spec: the base class \<open>AERTrial\<close> is not among the sources. The spec
  gives a trial a \<open>participant_id\<close> and a \<open>media_id\<close> (both integers, offset-adjusted);
  \<open>get_trial_splits\<close> reads only \<open>participant_id\<close>.
\<close>

record aer_trial =
  participant_id :: int
  media_id :: int

text \<open>
  The fields \<open>__init__\<close> sets. \<open>_participant_ids\<close> and \<open>_media_ids\<close> are Python sets;
  they are lists here (one iteration order of the set), and \<open>set(...)\<close> and \<open>len(...)\<close>
  are written out where the source applies them. \<open>_signal_preprocessors\<close> is not read by
  any function modelled here and is left out.
\<close>

record dataset =
  signals :: "string list"
  participant_offset :: int
  media_file_offset :: int
  participant_ids :: "int list"
  media_ids :: "int list"
  all_trials :: "aer_trial list"


text \<open>\<open>__init__\<close>: \<open>signals=None\<close> becomes the empty list; the id sets and the trials start empty.\<close>

definition AERDataset :: "string list option \<Rightarrow> int \<Rightarrow> int \<Rightarrow> dataset" where
  "AERDataset signals_arg p_off m_off =
     \<lparr>signals = (case signals_arg of None \<Rightarrow> [] | Some s \<Rightarrow> s),
      participant_offset = p_off, media_file_offset = m_off,
      participant_ids = [], media_ids = [], all_trials = []\<rparr>"

subsection \<open>numpy.random.choice without replacement\<close>

text \<open>
  The generator's randomness is an explicit stream \<open>rs\<close> of naturals. Each draw takes the
  next number \<open>r\<close> of the stream (0 once the stream is exhausted), picks the element at
  index \<open>r mod length pool\<close> and removes it from the pool. Every ordered sample without
  replacement is the outcome of some stream, so a statement for all \<open>rs\<close> is a statement
  about every outcome of the random choice.
\<close>

fun draw :: "nat list \<Rightarrow> 'a list \<Rightarrow> nat \<Rightarrow> 'a list \<times> nat list" where
  "draw rs pool 0 = ([], rs)"
| "draw rs pool (Suc k) =
     (if pool = [] then ([], rs)
      else
        let r = (case rs of [] \<Rightarrow> 0 | r # _ \<Rightarrow> r);
            rs' = (case rs of [] \<Rightarrow> [] | _ # rest \<Rightarrow> rest);
            i = r mod length pool;
            (xs, rs'') = draw rs' (take i pool @ drop (Suc i) pool) k
        in (pool ! i # xs, rs''))"






subsection \<open>get_trial_splits\<close>

text \<open>
  The fractions are Python floats in the source; they are rationals here and the arithmetic
  on them is exact. \<open>.astype(dtype=np.int32)\<close> truncates toward zero. The counts are
  unbounded integers here: they are the values of the source's 32-bit array as long as
  each of them, and their sum, lies within the signed 32-bit range.
\<close>

definition astype_int32 :: "rat \<Rightarrow> int" where
  "astype_int32 x = (if 0 \<le> x then \<lfloor>x\<rfloor> else \<lceil>x\<rceil>)"

text \<open>
  Lines 178 to 180: the fractions times the number of participants, truncated, and the
  difference to the number of participants added to the first count. The function is
  only reached with two or more fractions, so \<open>splits[0]\<close> exists there; on the empty
  list the model leaves the list as it is.
\<close>

definition participant_counts :: "rat list \<Rightarrow> nat \<Rightarrow> int list" where
  "participant_counts splits n =
     (let counts = map (\<lambda>s. astype_int32 (s * of_nat n)) splits
      in if sum_list counts \<noteq> int n
         then (case counts of
                 [] \<Rightarrow> []
               | c # rest \<Rightarrow> (c + (int n - sum_list counts)) # rest)
         else counts)"






subsection \<open>preload\<close>

text \<open>
  The dataset's working directory and what it holds. The marker file \<open>.preload.npy\<close> is
  absent, holds the array of signal names that \<open>np.save\<close> wrote, or is a file that
  \<open>np.load\<close> does not read: then \<open>np.load\<close> raises, and \<open>Unreadable\<close> carries the
  exception it raises on this file.
\<close>

datatype marker = Absent | Saved "string list" | Unreadable exn

text \<open>What a caller can observe of a call of \<open>preload\<close>, besides its result.\<close>

datatype event = Prepare | SaveMarker "string list"

text \<open>
  The world outside the dataset object: the working directory (\<open>None\<close> while it does not
  exist, otherwise the state of the marker in it), the data of the dataset's own that its
  preparation routine works on, and the log of events. The marker cannot exist without its
  directory. Failures of the file system itself (no permission, disk full) are not modelled.
\<close>

record 'd world =
  workdir :: "marker option"
  prepared :: 'd
  trace :: "event list"

text \<open>\<open>path.mkdir(parents=True, exist_ok=True)\<close>: creates the directory when it is missing.\<close>

definition get_working_dir :: "'d world \<Rightarrow> 'd world" where
  "get_working_dir w = (case workdir w of None \<Rightarrow> w\<lparr>workdir := Some Absent\<rparr> | Some m \<Rightarrow> w)"

definition preload_file :: "'d world \<Rightarrow> marker" where
  "preload_file w = (case workdir w of None \<Rightarrow> Absent | Some m \<Rightarrow> m)"

definition np_load :: "marker \<Rightarrow> exn + string list" where
  "np_load m =
     (case m of
        Saved arr \<Rightarrow> Inr arr
      | Unreadable e \<Rightarrow> Inl e
      | Absent \<Rightarrow> Inl (OtherError ''FileNotFoundError''))"

definition np_save :: "string list \<Rightarrow> 'd world \<Rightarrow> 'd world" where
  "np_save arr w = w\<lparr>workdir := Some (Saved arr), trace := trace w @ [SaveMarker arr]\<rparr>"

text \<open>
  Lines 88 and 89. The abstract method \<open>_preload_dataset\<close> is the parameter
  \<open>preload_dataset\<close>: given the instance and the dataset's data it returns the exception
  it raised, if any, and the data as it left them (also when it raised). It works on the
  dataset's own data, not on the marker.
\<close>

definition prepare_and_save ::
  "(dataset \<Rightarrow> 'd \<Rightarrow> exn option \<times> 'd) \<Rightarrow> dataset \<Rightarrow> 'd world \<Rightarrow> (exn + unit) \<times> 'd world" where
  "prepare_and_save preload_dataset self w =
     (let (raised, d) = preload_dataset self (prepared w);
          w1 = w\<lparr>prepared := d, trace := trace w @ [Prepare]\<rparr>
      in case raised of
           Some e \<Rightarrow> (Inl e, w1)
         | None \<Rightarrow> (Inr (), np_save (signals self) w1))"

definition preload ::
  "(dataset \<Rightarrow> 'd \<Rightarrow> exn option \<times> 'd) \<Rightarrow> dataset \<Rightarrow> 'd world \<Rightarrow> (exn + unit) \<times> 'd world" where
  "preload preload_dataset self w0 =
     (let w = get_working_dir w0
      in if preload_file w \<noteq> Absent
         then (case np_load (preload_file w) of
                 Inl e \<Rightarrow> (Inl e, w)
               | Inr preloaded_signals \<Rightarrow>
                   if set (signals self) \<subseteq> set preloaded_signals then (Inr (), w)
                   else prepare_and_save preload_dataset self w)
         else prepare_and_save preload_dataset self w)"

text \<open>
  Two calls in succession, \<open>ds.preload(); ds.preload()\<close>: the second call runs when the
  first has returned; an exception of the first call ends the sequence.
\<close>

definition preload_twice ::
  "(dataset \<Rightarrow> 'd \<Rightarrow> exn option \<times> 'd) \<Rightarrow> dataset \<Rightarrow> 'd world \<Rightarrow> (exn + unit) \<times> 'd world" where
  "preload_twice preload_dataset self w =
     (case preload preload_dataset self w of
        (Inl e, w1) \<Rightarrow> (Inl e, w1)
      | (Inr u, w1) \<Rightarrow> preload preload_dataset self w1)"

definition prepare_count :: "'d world \<Rightarrow> nat" where
  "prepare_count w = length (filter (\<lambda>ev. ev = Prepare) (trace w))"

definition marker_writes :: "'d world \<Rightarrow> string list list" where
  "marker_writes w = concat (map (\<lambda>ev. case ev of SaveMarker arr \<Rightarrow> [arr] | Prepare \<Rightarrow> []) (trace w))"

text \<open>
  The condition of lines 80 to 86 under which \<open>preload\<close> returns at once: the marker file
  exists, is read, and every signal of the instance is among the signals it holds.
\<close>

definition already_preloaded :: "dataset \<Rightarrow> 'd world \<Rightarrow> bool" where
  "already_preloaded self w =
     (case preload_file w of Saved arr \<Rightarrow> set (signals self) \<subseteq> set arr | _ \<Rightarrow> False)"

text \<open>A marker that is absent or that \<open>np.load\<close> reads.\<close>

definition readable :: "marker \<Rightarrow> bool" where
  "readable m = (case m of Unreadable e \<Rightarrow> False | _ \<Rightarrow> True)"

section \<open>AscertainTrial (datasets/ascertain/AscertainTrial.py)\<close>

definition ASCERTAIN_ECG_SAMPLE_RATE :: nat where
  "ASCERTAIN_ECG_SAMPLE_RATE = 256"


text \<open>
  A two-dimensional array is the list of its rows; the numbers are rationals. What
  \<open>scipy.io.loadmat\<close> returns is a dictionary from variable names to arrays.
\<close>

type_synonym ndarray = "rat list list"

type_synonym matfile = "string \<rightharpoonup> ndarray"

definition shape :: "ndarray \<Rightarrow> nat \<times> nat" where
  "shape a = (length a, (case a of [] \<Rightarrow> 0 | row # _ \<Rightarrow> length row))"

text \<open>
  Modelled from the spec: the fields of the base class \<open>AERTrial\<close>, which is not among the
  sources. The spec gives a trial its two identifiers and a mapping from signal-type name
  to a file reference; the source reads the mapping as \<open>self._signal_data_files\<close>.
  \<open>_ecg_signal_duration\<close> is the field of \<open>AscertainTrial\<close> itself.
\<close>

record 'f ascertain_trial = aer_trial +
  signal_data_files :: "string \<rightharpoonup> 'f"
  ecg_signal_duration :: "rat option"

text \<open>
  \<open>__init__\<close>. Modelled from the spec: what \<open>super().__init__\<close> stores. The files a
  dataset registers for the trial are the parameter \<open>files\<close>.
\<close>

definition AscertainTrial :: "int \<Rightarrow> int \<Rightarrow> (string \<rightharpoonup> 'f) \<Rightarrow> 'f ascertain_trial" where
  "AscertainTrial p movie_id files =
     \<lparr>participant_id = p, media_id = movie_id,
      signal_data_files = files, ecg_signal_duration = None\<rparr>"

definition load_ground_truth :: "'f ascertain_trial \<Rightarrow> int" where
  "load_ground_truth self = 0"



text \<open>
  The library functions the loader calls: \<open>scipy.io.loadmat\<close>, the constructor
  \<open>datetime(year, month, day, hour, minute, second, microsecond)\<close>, which raises on
  arguments out of range, and \<open>(start + timedelta(milliseconds=t)).timestamp()\<close>.
\<close>

record ('f, 'dt) libs =
  loadmat :: "'f \<Rightarrow> exn + matfile"
  datetime :: "int list \<Rightarrow> exn + 'dt"
  convert_to_epoch :: "rat \<Rightarrow> 'dt \<Rightarrow> exn + rat"

definition getitem :: "(string \<rightharpoonup> 'v) \<Rightarrow> string \<Rightarrow> exn + 'v" where
  "getitem d k = (case d k of None \<Rightarrow> Inl (KeyError k) | Some v \<Rightarrow> Inr v)"

definition item :: "'a list \<Rightarrow> nat \<Rightarrow> exn + 'a" where
  "item xs i = (if i < length xs then Inr (xs ! i) else Inl (IndexError ''index out of bounds''))"

text \<open>All results of a list of computations, or the first exception.\<close>

fun collect :: "(exn + 'a) list \<Rightarrow> exn + 'a list" where
  "collect [] = Inr []"
| "collect (r # rs) = and_then r (\<lambda>x. and_then (collect rs) (\<lambda>xs. Inr (x # xs)))"

text \<open>Python's \<open>int(x)\<close> of a float: truncation toward zero.\<close>

definition py_int :: "rat \<Rightarrow> int" where
  "py_int x = (if 0 \<le> x then \<lfloor>x\<rfloor> else \<lceil>x\<rceil>)"

text \<open>
  \<open>_load_ecg_signal_data\<close>. The indexing \<open>ecg_data[:, [0, left, right]]\<close> raises when a column
  is out of range; on the rows of a rectangular array that is what the per-row check does.
  The result is the transposed array: the row of timestamps and the rows of the two
  channels, one column per sample.
\<close>

definition load_ecg_signal_data :: "('f, 'dt) libs \<Rightarrow> matfile \<Rightarrow> exn + ndarray" where
  "load_ecg_signal_data lib signal_data_file =
     and_then (getitem signal_data_file ''timeECG'') (\<lambda>timeECG.
     and_then (item timeECG 0) (\<lambda>start_time_arr.
     and_then (collect (map (item start_time_arr) [0, 1, 2, 3, 4, 5, 5])) (\<lambda>v.
     and_then (datetime lib (map py_int (take 6 v) @ [py_int (1000 * frac (v ! 6))])) (\<lambda>start_time.
     and_then (getitem signal_data_file ''Data_ECG'') (\<lambda>ecg_data.
     and_then (item ecg_data 0) (\<lambda>row0.
       let left_arm_idx = (if length row0 < 6 then 1 else 4);
           right_arm_idx = (if length row0 < 6 then 2 else 5)
       in
     and_then (collect (map (\<lambda>row. collect (map (item row) [0, left_arm_idx, right_arm_idx]))
                 ecg_data)) (\<lambda>ecg.
     and_then (collect (map (\<lambda>row. convert_to_epoch lib (row ! 0) start_time) ecg)) (\<lambda>ts.
       Inr [ts, map (\<lambda>row. row ! 1) ecg, map (\<lambda>row. row ! 2) ecg]))))))))"

definition load_gsr_signal_data :: "matfile \<Rightarrow> ndarray" where
  "load_gsr_signal_data signal_data_file = []"

definition load_eeg_signal_data :: "matfile \<Rightarrow> ndarray" where
  "load_eeg_signal_data signal_data_file = []"

definition not_implemented_msg :: "string \<Rightarrow> string" where
  "not_implemented_msg st = ''_load_signal_data not implemented for signal type '' @ st"

text \<open>
  \<open>load_signal_data\<close>: the file is looked up and loaded first, then the signal type is
  dispatched. The result is the value returned or the exception raised, and the trial as
  the call leaves it.
\<close>

definition load_signal_data ::
  "('f, 'dt) libs \<Rightarrow> 'f ascertain_trial \<Rightarrow> string \<Rightarrow> (exn + ndarray) \<times> 'f ascertain_trial" where
  "load_signal_data lib self st =
     (case getitem (signal_data_files self) st of
        Inl e \<Rightarrow> (Inl e, self)
      | Inr signal_data_file \<Rightarrow>
          (case loadmat lib signal_data_file of
             Inl e \<Rightarrow> (Inl e, self)
           | Inr matfile \<Rightarrow>
               if st = ''ECG'' then
                 (case load_ecg_signal_data lib matfile of
                    Inl e \<Rightarrow> (Inl e, self)
                  | Inr data \<Rightarrow>
                      (Inr data,
                       self\<lparr>ecg_signal_duration :=
                         Some (of_nat (snd (shape data)) / of_nat ASCERTAIN_ECG_SAMPLE_RATE)\<rparr>))
               else if st = ''GSR'' then (Inr (load_gsr_signal_data matfile), self)
               else if st = ''EEG'' then (Inr (load_eeg_signal_data matfile), self)
               else (Inl (ValueError (not_implemented_msg st)), self)))"




section \<open>Example inputs\<close>


text \<open>
  Two preparation routines over a counter of their runs: one that returns, one that raises.
\<close>

definition counting_preparation :: "dataset \<Rightarrow> nat \<Rightarrow> exn option \<times> nat" where
  "counting_preparation self d = (None, Suc d)"

definition failing_preparation :: "dataset \<Rightarrow> nat \<Rightarrow> exn option \<times> nat" where
  "failing_preparation self d = (Some (OtherError ''IOError''), Suc d)"

text \<open>A fresh world, and the world after a dataset with the selection ECG has been preloaded.\<close>

definition fresh_world :: "nat world" where
  "fresh_world = \<lparr>workdir = None, prepared = 0, trace = []\<rparr>"

definition ecg_world :: "nat world" where
  "ecg_world = \<lparr>workdir = Some (Saved [''ECG'']), prepared = 1,
                 trace = [Prepare, SaveMarker [''ECG'']]\<rparr>"

text \<open>
  A recording of \<open>n\<close> ECG samples as \<open>scipy.io.loadmat\<close> returns it (one row per sample:
  the offset in milliseconds and two channels), library functions for which the file
  reference \<open>n\<close> holds that recording, and a trial with a recording of 2560 samples.
\<close>

definition ecg_recording :: "nat \<Rightarrow> matfile" where
  "ecg_recording n =
     [''timeECG'' \<mapsto> [[2020, 1, 2, 3, 4, 5]],
      ''Data_ECG'' \<mapsto> map (\<lambda>i. [of_nat i, 7, 9]) [0..<n]]"

definition example_libs :: "(nat, rat) libs" where
  "example_libs =
     \<lparr>loadmat = (\<lambda>n. Inr (ecg_recording n)),
      datetime = (\<lambda>args. Inr 1577934245),
      convert_to_epoch = (\<lambda>t start. Inr (start + t / 1000))\<rparr>"


section \<open>Properties of get_trial_splits\<close>




subsection \<open>The partition of the participants\<close>




text \<open>
  The model of the draws leaves no outcome out: every list of distinct elements of the pool
  is the sample of some stream.
\<close>

lemma draw_complete:
  "distinct xs \<Longrightarrow> set xs \<subseteq> set pool \<Longrightarrow> \<exists>rs. fst (draw rs pool (length xs)) = xs"
proof (induction xs arbitrary: pool)
  case Nil
  show ?case by simp
next
  case (Cons x xs)
  from Cons.prems(2) have "x \<in> set pool" by simp
  then obtain i where i: "i < length pool" and x: "pool ! i = x"
    by (auto simp: in_set_conv_nth)
  define pool' where "pool' = take i pool @ drop (Suc i) pool"
  have d: "pool = take i pool @ x # drop (Suc i) pool"
    using id_take_nth_drop [OF i] x by simp
  have "set pool = insert x (set pool')"
    unfolding pool'_def by (subst d) auto
  moreover have "x \<notin> set xs" using Cons.prems(1) by simp
  ultimately have sub: "set xs \<subseteq> set pool'" using Cons.prems(2) by auto
  have dist: "distinct xs" using Cons.prems(1) by simp
  obtain rs where rs: "fst (draw rs pool' (length xs)) = xs"
    using Cons.IH [OF dist sub] by blast
  have ne: "pool \<noteq> []" using i by auto
  have "fst (draw (i # rs) pool (length (x # xs))) = x # xs"
    using ne i x rs by (auto simp: pool'_def split: prod.splits)
  then show ?case by blast
qed




lemma astype_int32_nonneg: "0 \<le> s \<Longrightarrow> 0 \<le> astype_int32 (s * of_nat n)"
  by (simp add: astype_int32_def)

lemma astype_int32_le: "0 \<le> s \<Longrightarrow> of_int (astype_int32 (s * of_nat n)) \<le> s * of_nat n"
  by (simp add: astype_int32_def)

lemma raw_counts_nonneg:
  "\<forall>s\<in>set splits. 0 \<le> s \<Longrightarrow> \<forall>c\<in>set (map (\<lambda>s. astype_int32 (s * of_nat n)) splits). 0 \<le> c"
  by (auto simp: astype_int32_nonneg)

lemma raw_counts_sum_le:
  "\<forall>s\<in>set splits. 0 \<le> s \<Longrightarrow>
     (of_int (sum_list (map (\<lambda>s. astype_int32 (s * of_nat n)) splits)) :: rat)
       \<le> sum_list splits * of_nat n"
proof (induction splits)
  case Nil
  show ?case by simp
next
  case (Cons s splits)
  have "of_int (astype_int32 (s * of_nat n)) \<le> s * of_nat n"
    using Cons.prems by (simp add: astype_int32_le)
  moreover have "(of_int (sum_list (map (\<lambda>s. astype_int32 (s * of_nat n)) splits)) :: rat)
       \<le> sum_list splits * of_nat n"
    using Cons by simp
  ultimately show ?case by (simp add: algebra_simps)
qed




lemma participant_counts_hd:
  "splits \<noteq> [] \<Longrightarrow>
   hd (participant_counts splits n) =
     astype_int32 (hd splits * of_nat n)
       + (int n - sum_list (map (\<lambda>s. astype_int32 (s * of_nat n)) splits))"
  by (cases splits) (simp_all add: participant_counts_def Let_def)


text \<open>
  The first count stays non-negative after the adjustment whenever the fractions sum to at
  most 1, and whenever there are fewer than 10000 participants.
\<close>

lemma first_count_nonneg_if_sum_le_1:
  assumes "splits \<noteq> []" "\<forall>s\<in>set splits. 0 \<le> s" "sum_list splits \<le> 1"
  shows "0 \<le> hd (participant_counts splits n)"
proof -
  let ?raw = "map (\<lambda>s. astype_int32 (s * of_nat n)) splits"
  have "(of_int (sum_list ?raw) :: rat) \<le> sum_list splits * of_nat n"
    using assms(2) by (rule raw_counts_sum_le)
  also have "\<dots> \<le> 1 * of_nat n"
    using assms(3) by (intro mult_right_mono) simp_all
  finally have "(of_int (sum_list ?raw) :: rat) \<le> of_int (int n)" by simp
  then have le: "sum_list ?raw \<le> int n" by (simp only: of_int_le_iff)
  have "0 \<le> astype_int32 (hd splits * of_nat n)"
    using assms(1,2) by (simp add: astype_int32_nonneg)
  then show ?thesis using le by (simp add: participant_counts_hd [OF assms(1)])
qed

lemma first_count_nonneg_if_small:
  assumes "splits \<noteq> []" "\<forall>s\<in>set splits. 0 \<le> s" "\<bar>1 - sum_list splits\<bar> \<le> 1 / 10000"
    "n < 10000"
  shows "0 \<le> hd (participant_counts splits n)"
proof -
  let ?raw = "map (\<lambda>s. astype_int32 (s * of_nat n)) splits"
  have s: "sum_list splits \<le> 1 + 1 / 10000" using assms(3) by linarith
  have "(of_int (sum_list ?raw) :: rat) \<le> sum_list splits * of_nat n"
    using assms(2) by (rule raw_counts_sum_le)
  also have "\<dots> \<le> (1 + 1 / 10000) * of_nat n"
    using s by (intro mult_right_mono) simp_all
  also have "\<dots> < of_nat n + 1"
  proof -
    have "(of_nat n :: rat) < 10000" using assms(4) by simp
    then show ?thesis by (simp add: algebra_simps)
  qed
  finally have "(of_int (sum_list ?raw) :: rat) < of_int (int n + 1)" by simp
  then have "sum_list ?raw < int n + 1" by (simp only: of_int_less_iff)
  then have le: "sum_list ?raw \<le> int n" by simp
  have "0 \<le> astype_int32 (hd splits * of_nat n)"
    using assms(1,2) by (simp add: astype_int32_nonneg)
  then show ?thesis using le by (simp add: participant_counts_hd [OF assms(1)])
qed

text \<open>
  With non-negative fractions that sum to 1 within the tolerance and at most 2000000000
  participants, every truncated count and the sum of the counts lie within the signed
  32-bit range: there the unbounded integers of the model are the values of the source's
  \<open>int32\<close> array.
\<close>

lemma raw_counts_within_int32:
  assumes "\<forall>s\<in>set splits. 0 \<le> s" "\<bar>1 - sum_list splits\<bar> \<le> 1 / 10000" "n \<le> 2000000000"
  shows "\<forall>c\<in>set (map (\<lambda>s. astype_int32 (s * of_nat n)) splits). 0 \<le> c \<and> c < 2 ^ 31"
    and "0 \<le> sum_list (map (\<lambda>s. astype_int32 (s * of_nat n)) splits)"
    and "sum_list (map (\<lambda>s. astype_int32 (s * of_nat n)) splits) < 2 ^ 31"
proof -
  let ?raw = "map (\<lambda>s. astype_int32 (s * of_nat n)) splits"
  have nn: "\<forall>c\<in>set ?raw. 0 \<le> c" using assms(1) by (rule raw_counts_nonneg)
  have s: "sum_list splits \<le> 1 + 1 / 10000" using assms(2) by linarith
  have "(of_int (sum_list ?raw) :: rat) \<le> sum_list splits * of_nat n"
    using assms(1) by (rule raw_counts_sum_le)
  also have "\<dots> \<le> (1 + 1 / 10000) * of_nat n"
    using s by (intro mult_right_mono) simp_all
  also have "\<dots> \<le> (1 + 1 / 10000) * 2000000000"
  proof -
    have "(of_nat n :: rat) \<le> 2000000000" using assms(3) by simp
    then show ?thesis by (intro mult_left_mono) simp_all
  qed
  also have "\<dots> < of_int (2 ^ 31)" by simp
  finally have "(of_int (sum_list ?raw) :: rat) < of_int (2 ^ 31)" .
  then show lt: "sum_list ?raw < 2 ^ 31" by (simp only: of_int_less_iff)
  have "\<And>x. x \<in> set ?raw \<Longrightarrow> 0 \<le> x" using nn by blast
  then show "0 \<le> sum_list ?raw" by (rule sum_list_nonneg)
  show "\<forall>c\<in>set ?raw. 0 \<le> c \<and> c < 2 ^ 31"
  proof
    fix c assume c: "c \<in> set ?raw"
    have "c \<le> sum_list ?raw" using nn c by (meson member_le_sum_list)
    with lt nn c show "0 \<le> c \<and> c < 2 ^ 31" by auto
  qed
qed






subsection \<open>A single split, or none\<close>




section \<open>Properties of preload\<close>

lemma get_working_dir_simps:
  "preload_file (get_working_dir w) = preload_file w"
  "prepared (get_working_dir w) = prepared w"
  "trace (get_working_dir w) = trace w"
  by (simp_all add: get_working_dir_def preload_file_def split: option.splits)

lemma get_working_dir_exists: "preload_file w \<noteq> Absent \<Longrightarrow> get_working_dir w = w"
  by (simp add: get_working_dir_def preload_file_def split: option.splits)

lemma preload_already:
  "already_preloaded self w \<Longrightarrow> preload P self w = (Inr (), w)"
  by (auto simp: already_preloaded_def preload_def get_working_dir_exists np_load_def Let_def
      split: marker.splits)

lemma preload_unreadable:
  "preload_file w = Unreadable e \<Longrightarrow> preload P self w = (Inl e, w)"
  by (simp add: preload_def get_working_dir_exists np_load_def Let_def)

lemma preload_prepares:
  "\<not> already_preloaded self w \<Longrightarrow> readable (preload_file w) \<Longrightarrow>
     preload P self w = prepare_and_save P self (get_working_dir w)"
  by (auto simp: already_preloaded_def readable_def preload_def get_working_dir_simps np_load_def
      Let_def split: marker.splits)

lemma prepare_and_save_ok:
  "fst (P self (prepared w)) = None \<Longrightarrow>
     prepare_and_save P self w =
       (Inr (), w\<lparr>workdir := Some (Saved (signals self)),
                  prepared := snd (P self (prepared w)),
                  trace := trace w @ [Prepare, SaveMarker (signals self)]\<rparr>)"
  by (cases "P self (prepared w)") (simp add: prepare_and_save_def np_save_def)

lemma prepare_and_save_raises:
  "fst (P self (prepared w)) = Some e \<Longrightarrow>
     prepare_and_save P self w =
       (Inl e, w\<lparr>prepared := snd (P self (prepared w)), trace := trace w @ [Prepare]\<rparr>)"
  by (cases "P self (prepared w)") (simp add: prepare_and_save_def)

lemma preload_cases:
  obtains (noop) "already_preloaded self w" "preload P self w = (Inr (), w)"
  | (unreadable) e where "preload_file w = Unreadable e" "preload P self w = (Inl e, w)"
  | (ok) "\<not> already_preloaded self w" "readable (preload_file w)"
      "fst (P self (prepared w)) = None"
      "preload P self w =
         (Inr (), (get_working_dir w)\<lparr>workdir := Some (Saved (signals self)),
                  prepared := snd (P self (prepared w)),
                  trace := trace w @ [Prepare, SaveMarker (signals self)]\<rparr>)"
  | (raises) e where "\<not> already_preloaded self w" "readable (preload_file w)"
      "fst (P self (prepared w)) = Some e"
      "preload P self w =
         (Inl e, (get_working_dir w)\<lparr>prepared := snd (P self (prepared w)),
                   trace := trace w @ [Prepare]\<rparr>)"
proof (cases "already_preloaded self w")
  case True
  then show ?thesis using noop preload_already by blast
next
  case False
  show ?thesis
  proof (cases "preload_file w")
    case (Unreadable e)
    then show ?thesis using unreadable preload_unreadable by blast
  next
    case Absent
    then have r: "readable (preload_file w)" by (simp add: readable_def)
    show ?thesis
    proof (cases "fst (P self (prepared w))")
      case None
      then show ?thesis
        using ok [OF False r None] preload_prepares [OF False r, of P]
          prepare_and_save_ok [of P self "get_working_dir w"]
        by (simp add: get_working_dir_simps)
    next
      case (Some e)
      then show ?thesis
        using raises [OF False r Some] preload_prepares [OF False r, of P]
          prepare_and_save_raises [of P self "get_working_dir w" e]
        by (simp add: get_working_dir_simps)
    qed
  next
    case (Saved arr)
    then have r: "readable (preload_file w)" by (simp add: readable_def)
    show ?thesis
    proof (cases "fst (P self (prepared w))")
      case None
      then show ?thesis
        using ok [OF False r None] preload_prepares [OF False r, of P]
          prepare_and_save_ok [of P self "get_working_dir w"]
        by (simp add: get_working_dir_simps)
    next
      case (Some e)
      then show ?thesis
        using raises [OF False r Some] preload_prepares [OF False r, of P]
          prepare_and_save_raises [of P self "get_working_dir w" e]
        by (simp add: get_working_dir_simps)
    qed
  qed
qed

lemma prepare_count_simps:
  "prepare_count (w\<lparr>trace := trace w @ [Prepare, SaveMarker arr]\<rparr>) = Suc (prepare_count w)"
  "prepare_count (w\<lparr>trace := trace w @ [Prepare]\<rparr>) = Suc (prepare_count w)"
  by (simp_all add: prepare_count_def)

lemma preload_disjoint_not_already:
  assumes "signals self \<noteq> []" "set (signals self) \<inter> set previous = {}"
    "preload_file w = Saved previous"
  shows "\<not> already_preloaded self w"
proof
  assume "already_preloaded self w"
  then have sub: "set (signals self) \<subseteq> set previous"
    using assms(3) by (simp add: already_preloaded_def)
  obtain s where s: "s \<in> set (signals self)"
    using assms(1) by (cases "signals self") auto
  with sub have "s \<in> set previous" by (simp add: subsetD)
  with s assms(2) show False by (simp add: disjoint_iff)
qed

text \<open>
  C2, amended. For every instance and every state of the marker file in which the file is
  absent or is read by \<open>np.load\<close>: \<open>preload\<close> logs no event exactly when the marker exists
  and every signal of the instance's selection is a member of the persisted set; in that
  case it returns and leaves the world as it was (no preparation, no write). Otherwise the
  next event is the preparation routine, and when that routine returns, \<open>preload\<close> returns,
  the events are the preparation followed by the write of the marker, and the marker holds
  the instance's selection in place of any prior record.
\<close>

theorem preload_noop_iff_already_preloaded:
  assumes "readable (preload_file w)"
  shows "((trace (snd (preload P self w)) = trace w) = already_preloaded self w)
       \<and> (already_preloaded self w \<longrightarrow> preload P self w = (Inr (), w))
       \<and> (\<not> already_preloaded self w \<longrightarrow>
            take (Suc (length (trace w))) (trace (snd (preload P self w))) = trace w @ [Prepare]
            \<and> (fst (P self (prepared w)) = None \<longrightarrow>
                 fst (preload P self w) = Inr ()
               \<and> trace (snd (preload P self w)) = trace w @ [Prepare, SaveMarker (signals self)]
               \<and> preload_file (snd (preload P self w)) = Saved (signals self)))"
proof (cases rule: preload_cases [of self w P])
  case noop
  then show ?thesis by simp
next
  case (unreadable e)
  with assms show ?thesis by (simp add: readable_def)
next
  case ok
  then show ?thesis by (simp add: preload_file_def)
next
  case (raises e)
  then show ?thesis by simp
qed

text \<open>
  The example of the claim: after a preload for ECG, an instance with the selection ECG and
  GSR runs the preparation again and the marker becomes ECG and GSR.
\<close>

theorem preload_noop_iff_already_preloaded_witness:
  "readable (preload_file ecg_world)
   \<and> \<not> already_preloaded (AERDataset (Some [''ECG'', ''GSR'']) 0 0) ecg_world
   \<and> fst (preload counting_preparation (AERDataset (Some [''ECG'', ''GSR'']) 0 0) ecg_world) = Inr ()
   \<and> trace (snd (preload counting_preparation (AERDataset (Some [''ECG'', ''GSR'']) 0 0) ecg_world))
       = [Prepare, SaveMarker [''ECG''], Prepare, SaveMarker [''ECG'', ''GSR'']]
   \<and> preload_file (snd (preload counting_preparation (AERDataset (Some [''ECG'', ''GSR'']) 0 0) ecg_world))
       = Saved [''ECG'', ''GSR'']"
  using preload_noop_iff_already_preloaded
    [of ecg_world counting_preparation "AERDataset (Some [''ECG'', ''GSR'']) 0 0"]
  by (simp add: readable_def already_preloaded_def preload_file_def ecg_world_def AERDataset_def
      counting_preparation_def)

text \<open>
  C2 as stated, for every state of the marker file, fails on a marker that exists and that
  \<open>np.load\<close> does not read: the condition of the no-op does not hold (no persisted set
  contains ECG and GSR), yet the preparation routine is not invoked and nothing is
  persisted; the exception of \<open>np.load\<close> leaves \<open>preload\<close>.
\<close>

theorem preload_unreadable_marker_not_prepared:
  "\<not> already_preloaded (AERDataset (Some [''ECG'', ''GSR'']) 0 0)
        \<lparr>workdir = Some (Unreadable (ValueError ''Cannot load file containing pickled data'')),
         prepared = 0 :: nat, trace = []\<rparr>
   \<and> preload counting_preparation (AERDataset (Some [''ECG'', ''GSR'']) 0 0)
        \<lparr>workdir = Some (Unreadable (ValueError ''Cannot load file containing pickled data'')),
         prepared = 0, trace = []\<rparr>
     = (Inl (ValueError ''Cannot load file containing pickled data''),
        \<lparr>workdir = Some (Unreadable (ValueError ''Cannot load file containing pickled data'')),
         prepared = 0, trace = []\<rparr>)"
  by (simp add: already_preloaded_def preload_file_def preload_unreadable)

text \<open>
  C5. Two calls of \<open>preload\<close> in succession on the same instance run the preparation
  routine at most once, and whenever the first call returns, the second call is a no-op:
  it returns and leaves the world as the first call left it.
\<close>

theorem preload_twice_prepares_at_most_once:
  "prepare_count (snd (preload_twice P self w)) \<le> Suc (prepare_count w)
   \<and> (\<forall>u w1. preload P self w = (Inr u, w1) \<longrightarrow> preload P self w1 = (Inr (), w1))"
proof (cases rule: preload_cases [of self w P])
  case noop
  then show ?thesis by (simp add: preload_twice_def)
next
  case (unreadable e)
  then show ?thesis by (simp add: preload_twice_def)
next
  case ok
  let ?w1 = "(get_working_dir w)\<lparr>workdir := Some (Saved (signals self)),
                  prepared := snd (P self (prepared w)),
                  trace := trace w @ [Prepare, SaveMarker (signals self)]\<rparr>"
  have "already_preloaded self ?w1" by (simp add: already_preloaded_def preload_file_def)
  then have second: "preload P self ?w1 = (Inr (), ?w1)" by (rule preload_already)
  have "prepare_count ?w1 = Suc (prepare_count w)" by (simp add: prepare_count_def get_working_dir_simps)
  with ok(4) second show ?thesis by (simp add: preload_twice_def)
next
  case (raises e)
  then show ?thesis by (simp add: preload_twice_def prepare_count_def get_working_dir_simps)
qed

text \<open>On a fresh working directory the first call prepares and the second does nothing.\<close>

theorem preload_twice_prepares_at_most_once_witness:
  "preload counting_preparation (AERDataset (Some [''ECG'']) 0 0) fresh_world = (Inr (), ecg_world)
   \<and> preload counting_preparation (AERDataset (Some [''ECG'']) 0 0) ecg_world = (Inr (), ecg_world)
   \<and> prepare_count (snd (preload_twice counting_preparation (AERDataset (Some [''ECG'']) 0 0) fresh_world))
       \<le> Suc (prepare_count fresh_world)"
proof -
  have first: "preload counting_preparation (AERDataset (Some [''ECG'']) 0 0) fresh_world
      = (Inr (), ecg_world)"
    by (simp add: preload_def get_working_dir_def preload_file_def prepare_and_save_def np_save_def
        fresh_world_def ecg_world_def AERDataset_def counting_preparation_def)
  show ?thesis
    using first preload_twice_prepares_at_most_once
      [of counting_preparation "AERDataset (Some [''ECG'']) 0 0" fresh_world]
    by simp
qed

text \<open>
  C6. If the preparation routine raises, the marker after \<open>preload\<close> is the marker before
  it and no write of the marker is logged; where the routine was invoked (the marker was
  absent or read and did not cover the selection), \<open>preload\<close> ends in the routine's exception
  right after the preparation event.
\<close>

theorem preload_failure_keeps_marker:
  assumes "fst (P self (prepared w)) = Some e"
  shows "preload_file (snd (preload P self w)) = preload_file w
       \<and> marker_writes (snd (preload P self w)) = marker_writes w
       \<and> (\<not> already_preloaded self w \<and> readable (preload_file w) \<longrightarrow>
            fst (preload P self w) = Inl e
          \<and> trace (snd (preload P self w)) = trace w @ [Prepare])"
proof (cases rule: preload_cases [of self w P])
  case noop
  then show ?thesis by simp
next
  case (unreadable e')
  then show ?thesis by (simp add: readable_def)
next
  case ok
  with assms show ?thesis by simp
next
  case (raises e')
  with assms show ?thesis
    by (simp add: preload_file_def marker_writes_def get_working_dir_def split: option.splits)
qed

text \<open>A failing preparation for ECG and GSR leaves the marker of the earlier ECG preload.\<close>

theorem preload_failure_keeps_marker_witness:
  "fst (failing_preparation (AERDataset (Some [''ECG'', ''GSR'']) 0 0) (prepared ecg_world))
     = Some (OtherError ''IOError'')
   \<and> preload_file (snd (preload failing_preparation (AERDataset (Some [''ECG'', ''GSR'']) 0 0) ecg_world))
     = Saved [''ECG'']
   \<and> marker_writes (snd (preload failing_preparation (AERDataset (Some [''ECG'', ''GSR'']) 0 0) ecg_world))
     = [[''ECG'']]
   \<and> fst (preload failing_preparation (AERDataset (Some [''ECG'', ''GSR'']) 0 0) ecg_world)
     = Inl (OtherError ''IOError'')
   \<and> trace (snd (preload failing_preparation (AERDataset (Some [''ECG'', ''GSR'']) 0 0) ecg_world))
     = [Prepare, SaveMarker [''ECG''], Prepare]"
  using preload_failure_keeps_marker
    [of failing_preparation "AERDataset (Some [''ECG'', ''GSR'']) 0 0" ecg_world "OtherError ''IOError''"]
  by (simp add: readable_def already_preloaded_def preload_file_def ecg_world_def AERDataset_def
      failing_preparation_def marker_writes_def)

text \<open>
  C7, amended. If the marker file exists and \<open>np.load\<close> does not read it, \<open>preload\<close> fails
  with the exception \<open>np.load\<close> raises and changes nothing: the preparation routine is not
  run and the marker is not rewritten. The marker is not trusted, and it is not repaired.
\<close>

theorem preload_unreadable_marker_fails: "preload_file w = Unreadable e \<Longrightarrow> preload P self w = (Inl e, w)"
  by (rule preload_unreadable)

text \<open>An instance of the theorem, on a marker whose reading ends in an EOFError.\<close>

theorem preload_unreadable_marker_fails_witness:
  "preload_file \<lparr>workdir = Some (Unreadable (OtherError ''EOFError'')), prepared = 3 :: nat,
                  trace = [Prepare]\<rparr> = Unreadable (OtherError ''EOFError'')
   \<and> preload failing_preparation (AERDataset None 0 0)
        \<lparr>workdir = Some (Unreadable (OtherError ''EOFError'')), prepared = 3, trace = [Prepare]\<rparr>
     = (Inl (OtherError ''EOFError''),
        \<lparr>workdir = Some (Unreadable (OtherError ''EOFError'')), prepared = 3, trace = [Prepare]\<rparr>)"
  using preload_unreadable_marker_fails
    [of "\<lparr>workdir = Some (Unreadable (OtherError ''EOFError'')), prepared = 3 :: nat,
          trace = [Prepare]\<rparr>" "OtherError ''EOFError''" failing_preparation "AERDataset None 0 0"]
  by (simp add: preload_file_def)

text \<open>
  C7 as stated fails: with a corrupt marker \<open>preload\<close> does not run the preparation routine
  and does not rewrite the marker; it fails. The source has no handler around \<open>np.load\<close>.
\<close>

theorem preload_corrupt_marker_counterexample:
  "preload counting_preparation (AERDataset (Some [''ECG'']) 0 0)
        \<lparr>workdir = Some (Unreadable (OtherError ''UnpicklingError'')), prepared = 0, trace = []\<rparr>
     = (Inl (OtherError ''UnpicklingError''),
        \<lparr>workdir = Some (Unreadable (OtherError ''UnpicklingError'')), prepared = 0, trace = []\<rparr>)"
  by (simp add: preload_file_def preload_unreadable)

text \<open>
  C10, amended. Whenever \<open>preload\<close> triggers the preparation routine (it logs an event) and
  the routine returns, the marker written afterwards holds exactly the instance's current
  selection: the prior record is replaced, not extended. And a call with a non-empty
  selection that is disjoint from the persisted one runs the preparation routine, so that
  alternating between disjoint non-empty selections prepares on every call.
\<close>

theorem preload_marker_is_current_selection:
  "(trace (snd (preload P self w)) \<noteq> trace w \<and> fst (P self (prepared w)) = None \<longrightarrow>
      preload_file (snd (preload P self w)) = Saved (signals self)
    \<and> trace (snd (preload P self w)) = trace w @ [Prepare, SaveMarker (signals self)])
   \<and> (signals self \<noteq> [] \<and> set (signals self) \<inter> set previous = {}
        \<and> preload_file w = Saved previous \<longrightarrow>
      prepare_count (snd (preload P self w)) = Suc (prepare_count w))"
proof (rule conjI; rule impI)
  assume a: "trace (snd (preload P self w)) \<noteq> trace w \<and> fst (P self (prepared w)) = None"
  show "preload_file (snd (preload P self w)) = Saved (signals self)
    \<and> trace (snd (preload P self w)) = trace w @ [Prepare, SaveMarker (signals self)]"
  proof (cases rule: preload_cases [of self w P])
    case noop
    with a show ?thesis by simp
  next
    case (unreadable e)
    with a show ?thesis by simp
  next
    case ok
    show ?thesis unfolding ok(4) by (simp add: preload_file_def)
  next
    case (raises e)
    with a show ?thesis by simp
  qed
next
  assume b: "signals self \<noteq> [] \<and> set (signals self) \<inter> set previous = {}
        \<and> preload_file w = Saved previous"
  then have n: "\<not> already_preloaded self w"
    using preload_disjoint_not_already [of self previous w] by simp
  show "prepare_count (snd (preload P self w)) = Suc (prepare_count w)"
  proof (cases rule: preload_cases [of self w P])
    case noop
    with n show ?thesis by simp
  next
    case (unreadable e)
    with b show ?thesis by simp
  next
    case ok
    show ?thesis unfolding ok(4) by (simp add: prepare_count_def get_working_dir_simps)
  next
    case (raises e)
    show ?thesis unfolding raises(4) by (simp add: prepare_count_def get_working_dir_simps)
  qed
qed

text \<open>
  After a preload for ECG, a preload for GSR prepares and leaves the marker GSR (ECG is
  dropped), and a preload for ECG after that prepares again.
\<close>

theorem preload_marker_is_current_selection_witness:
  "preload counting_preparation (AERDataset (Some [''GSR'']) 0 0) ecg_world
     = (Inr (), \<lparr>workdir = Some (Saved [''GSR'']), prepared = 2,
                 trace = [Prepare, SaveMarker [''ECG''], Prepare, SaveMarker [''GSR'']]\<rparr>)
   \<and> preload_file (snd (preload counting_preparation (AERDataset (Some [''GSR'']) 0 0) ecg_world))
     = Saved [''GSR'']
   \<and> prepare_count (snd (preload counting_preparation (AERDataset (Some [''GSR'']) 0 0) ecg_world))
     = Suc (prepare_count ecg_world)
   \<and> prepare_count (snd (preload counting_preparation (AERDataset (Some [''ECG'']) 0 0)
        (snd (preload counting_preparation (AERDataset (Some [''GSR'']) 0 0) ecg_world))))
     = Suc (Suc (prepare_count ecg_world))"
proof -
  let ?gsr = "AERDataset (Some [''GSR'']) 0 0"
  let ?ecg = "AERDataset (Some [''ECG'']) 0 0"
  let ?w = "\<lparr>workdir = Some (Saved [''GSR'']), prepared = 2 :: nat,
                 trace = [Prepare, SaveMarker [''ECG''], Prepare, SaveMarker [''GSR'']]\<rparr>"
  have run: "preload counting_preparation ?gsr ecg_world = (Inr (), ?w)"
    by (simp add: preload_def get_working_dir_def preload_file_def prepare_and_save_def np_save_def
        np_load_def ecg_world_def AERDataset_def counting_preparation_def)
  have h1: "signals ?gsr \<noteq> [] \<and> set (signals ?gsr) \<inter> set [''ECG''] = {}
      \<and> preload_file ecg_world = Saved [''ECG'']"
    by (simp add: preload_file_def ecg_world_def AERDataset_def)
  have h2: "trace (snd (preload counting_preparation ?gsr ecg_world)) \<noteq> trace ecg_world
      \<and> fst (counting_preparation ?gsr (prepared ecg_world)) = None"
    unfolding run by (simp add: ecg_world_def counting_preparation_def)
  have one: "preload_file (snd (preload counting_preparation ?gsr ecg_world)) = Saved (signals ?gsr)
      \<and> prepare_count (snd (preload counting_preparation ?gsr ecg_world)) = Suc (prepare_count ecg_world)"
    using preload_marker_is_current_selection [of counting_preparation ?gsr ecg_world "[''ECG'']"]
      h1 h2 by simp
  have h3: "signals ?ecg \<noteq> [] \<and> set (signals ?ecg) \<inter> set [''GSR''] = {}
      \<and> preload_file ?w = Saved [''GSR'']"
    by (simp add: preload_file_def AERDataset_def)
  have two: "prepare_count (snd (preload counting_preparation ?ecg ?w)) = Suc (prepare_count ?w)"
    using preload_marker_is_current_selection [of counting_preparation ?ecg ?w "[''GSR'']"] h3
    by simp
  have cnt: "prepare_count ?w = Suc (prepare_count ecg_world)"
    by (simp add: prepare_count_def ecg_world_def)
  have sig: "signals ?gsr = [''GSR'']" by (simp add: AERDataset_def)
  show ?thesis using one two cnt sig by (simp add: run)
qed

text \<open>
  C10 as stated, for all disjoint selections, fails on the empty selection, which is the
  constructor's default and is disjoint from every selection: after a preload for ECG, the
  call of an instance without signals does not run the preparation routine.
\<close>

theorem preload_empty_selection_counterexample:
  "set (signals (AERDataset None 0 0)) \<inter> set [''ECG''] = {}
   \<and> preload counting_preparation (AERDataset (Some [''ECG'']) 0 0) fresh_world = (Inr (), ecg_world)
   \<and> preload counting_preparation (AERDataset None 0 0) ecg_world = (Inr (), ecg_world)"
  by (simp add: preload_def get_working_dir_def preload_file_def prepare_and_save_def np_save_def
      np_load_def fresh_world_def ecg_world_def AERDataset_def counting_preparation_def)

section \<open>Properties of AscertainTrial\<close>


lemma and_then_simps [simp]:
  "and_then (Inr x) f = f x"
  "and_then (Inl e) f = Inl e"
  by (simp_all add: and_then_def)











text \<open>
  C9. A trial for which only an ECG file is registered, asked for the signal type EMG:
  the lookup of the file in line 29 raises \<open>KeyError\<close> before the dispatch on the signal
  type is reached, not the \<open>ValueError\<close> of line 41.
\<close>

theorem load_signal_data_unsupported_KeyError:
  "load_signal_data example_libs (AscertainTrial 4 2 [''ECG'' \<mapsto> 2560]) ''EMG''
     = (Inl (KeyError ''EMG''), AscertainTrial 4 2 [''ECG'' \<mapsto> 2560])"
  by (simp add: load_signal_data_def getitem_def AscertainTrial_def)

text \<open>
  What \<open>load_signal_data\<close> does on a signal type other than ECG, GSR and EEG: the
  \<open>ValueError\<close> that names the type is raised only when a file is registered for the type
  and \<open>loadmat\<close> has loaded it.
\<close>

lemma load_signal_data_unsupported:
  assumes "st \<notin> {''ECG'', ''GSR'', ''EEG''}"
  shows "load_signal_data lib self st =
     (case signal_data_files self st of
        None \<Rightarrow> (Inl (KeyError st), self)
      | Some f \<Rightarrow>
          (case loadmat lib f of
             Inl e \<Rightarrow> (Inl e, self)
           | Inr mat \<Rightarrow> (Inl (ValueError (not_implemented_msg st)), self)))"
  using assms by (simp add: load_signal_data_def getitem_def split: option.splits sum.splits)

end
